theory Spec2Isabelle
  imports Complex_Main
begin

section \<open>Numbers, vectors and matrices\<close>

text \<open>
  The engine computes with numpy arrays of IEEE doubles. The embedding uses exact reals:
  a one-dimensional array is a list, a two-dimensional array is a list of rows. Rounding
  is outside the model; every threshold, index and branch of the source is kept.
\<close>

type_synonym vec = "real list"
type_synonym matrix = "real list list"

datatype error = ValueError | IndexError | ArithmeticError | AssertionError

definition dot :: "vec \<Rightarrow> vec \<Rightarrow> real" where
  "dot xs ys = (\<Sum>(x, y) \<leftarrow> zip xs ys. x * y)"

definition zeros :: "nat \<Rightarrow> vec" where
  "zeros n = replicate n 0"

definition row :: "matrix \<Rightarrow> nat \<Rightarrow> vec" where
  "row M i = M ! i"

definition col :: "matrix \<Rightarrow> nat \<Rightarrow> vec" where
  "col M j = map (\<lambda>r. r ! j) M"

definition del_nth :: "nat \<Rightarrow> 'a list \<Rightarrow> 'a list" where
  "del_nth j xs = take j xs @ drop (Suc j) xs"

definition mat_T :: "nat \<Rightarrow> matrix \<Rightarrow> matrix" where
  \<comment> \<open>the transpose of a matrix with \<open>k\<close> columns\<close>
  "mat_T k M = map (\<lambda>j. col M j) [0..<k]"

definition mat_mul :: "nat \<Rightarrow> matrix \<Rightarrow> matrix \<Rightarrow> matrix" where
  \<comment> \<open>\<open>M @ N\<close> for \<open>N\<close> with \<open>k\<close> columns\<close>
  "mat_mul k M N = map (\<lambda>r. map (\<lambda>j. dot r (col N j)) [0..<k]) M"

definition diag_mat :: "vec \<Rightarrow> matrix" where
  "diag_mat v = map (\<lambda>i. map (\<lambda>j. if i = j then v ! i else 0) [0..<length v]) [0..<length v]"

definition zeros2 :: "nat \<Rightarrow> nat \<Rightarrow> matrix" where
  "zeros2 r c = replicate r (zeros c)"

text \<open>
  \<open>np.linalg.inv\<close> in exact arithmetic: the inverse of a square matrix by cofactors, and
  \<open>None\<close> where the library raises \<open>LinAlgError\<close> (a singular matrix).
\<close>

function det :: "matrix \<Rightarrow> real" where
  "det [] = 1"
| "det (r # rs) = (\<Sum>j \<leftarrow> [0..<length r]. (- 1) ^ j * r ! j * det (map (del_nth j) rs))"
  by pat_completeness auto
termination
  by (relation "measure length") auto

definition minor :: "matrix \<Rightarrow> nat \<Rightarrow> nat \<Rightarrow> matrix" where
  "minor M i j = map (del_nth j) (del_nth i M)"

definition linalg_inv :: "matrix \<Rightarrow> matrix option" where
  "linalg_inv M =
     (if det M = 0 then None
      else Some (map (\<lambda>i. map (\<lambda>j. (- 1) ^ (i + j) * det (minor M j i) / det M)
                   [0..<length M]) [0..<length M]))"

section \<open>The network (models/network.py)\<close>

record Branch =
  from_node :: nat
  to_node :: nat
  capacity_mw :: real
  impedance :: real

record HVDCLine =
  dc_from_node :: nat
  dc_to_node :: nat
  dc_capacity_mw :: real

record Network =
  net_n :: nat
  branches :: "Branch list"
  hvdc_lines :: "HVDCLine list"

definition net_b :: "Network \<Rightarrow> nat" where
  "net_b net = length (branches net)"

definition net_beta :: "Network \<Rightarrow> nat" where
  "net_beta net = length (hvdc_lines net)"

text \<open>
  \<open>_build_branch_incidence_matrix\<close>: column \<open>j\<close> gets \<open>-1\<close> at the from-bus and then
  \<open>1\<close> at the to-bus (the second assignment wins when both are the same bus). The
  constructor raises \<open>IndexError\<close> when an endpoint is not a bus index.
\<close>

definition A_br :: "Network \<Rightarrow> matrix" where
  "A_br net =
     map (\<lambda>k. map (\<lambda>br. if to_node br = k then 1 else if from_node br = k then - 1 else 0)
                 (branches net))
         [0..<net_n net]"

definition A_dc :: "Network \<Rightarrow> matrix" where
  "A_dc net =
     map (\<lambda>k. map (\<lambda>l. if dc_to_node l = k then 1 else if dc_from_node l = k then - 1 else 0)
                 (hvdc_lines net))
         [0..<net_n net]"

definition Network_init :: "nat \<Rightarrow> Branch list \<Rightarrow> HVDCLine list \<Rightarrow> error + Network" where
  "Network_init n brs dcs =
     (if list_all (\<lambda>br. from_node br < n \<and> to_node br < n) brs
         \<and> list_all (\<lambda>l. dc_from_node l < n \<and> dc_to_node l < n) dcs
      then Inr \<lparr> net_n = n, branches = brs, hvdc_lines = dcs \<rparr>
      else Inl IndexError)"

definition get_branch_capacities :: "Network \<Rightarrow> vec" where
  "get_branch_capacities net = map capacity_mw (branches net)"

definition get_branch_impedances :: "Network \<Rightarrow> vec" where
  "get_branch_impedances net = map impedance (branches net)"

text \<open>
  Elementwise arithmetic of an array of length \<open>b\<close> with another array: numpy accepts
  the same length or length one (broadcast). Any other length is answered here with the
  \<open>ValueError\<close> that the array operations raise on mismatched shapes.
\<close>

definition broadcast :: "nat \<Rightarrow> vec \<Rightarrow> error + vec" where
  "broadcast b x =
     (if length x = b then Inr x
      else if length x = 1 then Inr (replicate b (hd x))
      else Inl ValueError)"

text \<open>
  \<open>get_susceptances\<close>: with capacity additions the impedance of branch \<open>j\<close> is
  \<open>\<chi>\<^sub>0 * w / (w + x)\<close>; the susceptance is its reciprocal. (Where the double
  arithmetic divides by zero and continues with an infinity, the real model continues
  with HOL's \<open>x / 0 = 0\<close>; no theorem below depends on such an input.)
\<close>

definition get_susceptances :: "Network \<Rightarrow> vec option \<Rightarrow> error + vec" where
  "get_susceptances net capacity_additions =
     (case capacity_additions of
        None \<Rightarrow> Inr (map (\<lambda>z. 1 / z) (get_branch_impedances net))
      | Some x \<Rightarrow>
          (case broadcast (net_b net) x of
             Inl e \<Rightarrow> Inl e
           | Inr xb \<Rightarrow>
               Inr (map (\<lambda>(br, xj). 1 / (impedance br * capacity_mw br / (capacity_mw br + xj)))
                       (zip (branches net) xb))))"

text \<open>
  \<open>identify_non_islanding_branches\<close>: the source returns every branch index.
\<close>

definition identify_non_islanding_branches :: "Network \<Rightarrow> nat list" where
  "identify_non_islanding_branches net = [0..<net_b net]"

text \<open>
  The notion the docstring of \<open>identify_non_islanding_branches\<close> refers to: a branch is a
  bridge when the graph is connected with it and not without it.
\<close>

definition edge_rel :: "Branch list \<Rightarrow> (nat \<times> nat) set" where
  "edge_rel brs = (\<Union>br \<in> set brs. {(from_node br, to_node br), (to_node br, from_node br)})"

definition graph_connected :: "nat \<Rightarrow> Branch list \<Rightarrow> bool" where
  "graph_connected n brs \<longleftrightarrow> (\<forall>u<n. \<forall>v<n. (u, v) \<in> (edge_rel brs)\<^sup>*)"

definition removal_disconnects :: "Network \<Rightarrow> nat \<Rightarrow> bool" where
  "removal_disconnects net j \<longleftrightarrow>
     graph_connected (net_n net) (branches net)
     \<and> \<not> graph_connected (net_n net) (del_nth j (branches net))"

section \<open>The PTDF/LODF kernel\<close>

text \<open>
  The loop nest that fills the LODF matrix from a PTDF matrix \<open>\<Phi>\<close> and the reduced
  incidence matrix \<open>A\<close> (both kernels have the same loop): the diagonal and every entry
  whose denominator has magnitude at most \<open>10\<^sup>-\<^sup>6\<close> keep the initial zero.
\<close>

definition lodf_numerator :: "matrix \<Rightarrow> matrix \<Rightarrow> nat \<Rightarrow> nat \<Rightarrow> real" where
  "lodf_numerator PTDF A i j = dot (row PTDF i) (col A j)"

definition lodf_denominator :: "matrix \<Rightarrow> matrix \<Rightarrow> nat \<Rightarrow> real" where
  "lodf_denominator PTDF A j = 1 - dot (row PTDF j) (col A j)"

definition lodf_entry :: "matrix \<Rightarrow> matrix \<Rightarrow> nat \<Rightarrow> nat \<Rightarrow> real" where
  "lodf_entry PTDF A i j =
     (if i \<noteq> j \<and> \<bar>lodf_denominator PTDF A j\<bar> > 1 / 10 ^ 6
      then lodf_numerator PTDF A i j / lodf_denominator PTDF A j
      else 0)"

definition lodf_loops :: "nat \<Rightarrow> matrix \<Rightarrow> matrix \<Rightarrow> matrix" where
  "lodf_loops b PTDF A = map (\<lambda>i. map (\<lambda>j. lodf_entry PTDF A i j) [0..<b]) [0..<b]"

text \<open>
  \<open>compute_power_transfer_matrices\<close> of transmission\_correction.py. The slack row is
  dropped by \<open>A_br[1:, :]\<close>, leaving \<open>n - 1\<close> rows and \<open>b\<close> columns. The product
  \<open>A.T @ B\<close> multiplies a \<open>b \<times> (n-1)\<close> by a \<open>b \<times> b\<close> array, which numpy refuses with a
  \<open>ValueError\<close> unless \<open>n - 1 = b\<close>; that error is not a \<open>LinAlgError\<close> and leaves the
  function. A singular \<open>A.T @ B @ A\<close> raises \<open>LinAlgError\<close>, which is caught: both
  matrices are then zero.
\<close>

definition compute_power_transfer_matrices :: "Network \<Rightarrow> vec \<Rightarrow> error + (matrix \<times> matrix)" where
  "compute_power_transfer_matrices net x_br =
     (case get_susceptances net (Some x_br) of
        Inl e \<Rightarrow> Inl e
      | Inr susceptances \<Rightarrow>
          let B = diag_mat susceptances;
              A = tl (A_br net);
              n_minus_1 = length A;
              b = net_b net
          in if n_minus_1 \<noteq> b then Inl ValueError
             else (case linalg_inv (mat_mul b (mat_mul b (mat_T b A) B) A) of
                     None \<Rightarrow> Inr (zeros2 b n_minus_1, zeros2 b b)
                   | Some ATBA_inv \<Rightarrow>
                       let PTDF = mat_mul b (mat_mul b B A) ATBA_inv
                       in Inr (PTDF, lodf_loops b PTDF A)))"

text \<open>
  \<open>OperationalSubproblem._compute_power_transfer_matrices\<close>: only the PTDF is inside
  the \<open>try\<close>; the LODF loops then run on whichever PTDF was stored.
\<close>

definition op_compute_power_transfer_matrices :: "Network \<Rightarrow> vec \<Rightarrow> error + (matrix \<times> matrix)" where
  "op_compute_power_transfer_matrices net x_br_hat =
     (case get_susceptances net (Some x_br_hat) of
        Inl e \<Rightarrow> Inl e
      | Inr susceptances \<Rightarrow>
          let B = diag_mat susceptances;
              A_reduced = tl (A_br net);
              b = net_b net
          in if length A_reduced \<noteq> b then Inl ValueError
             else let PTDF = (case linalg_inv (mat_mul b (mat_mul b (mat_T b A_reduced) B) A_reduced) of
                                None \<Rightarrow> zeros2 b (net_n net - 1)
                              | Some ATBA_inv \<Rightarrow> mat_mul b (mat_mul b B A_reduced) ATBA_inv)
                  in Inr (PTDF, lodf_loops b PTDF A_reduced))"

section \<open>Transmission correction (algorithms/transmission\_correction.py)\<close>

text \<open>Python list indexing with an \<open>int\<close>: a negative index counts from the end.\<close>

definition py_index :: "'a list \<Rightarrow> int \<Rightarrow> error + 'a" where
  "py_index xs k =
     (if 0 \<le> k \<and> k < int (length xs) then Inr (xs ! nat k)
      else if k < 0 \<and> - k \<le> int (length xs) then Inr (xs ! nat (int (length xs) + k))
      else Inl IndexError)"

fun collect :: "(error + 'a) list \<Rightarrow> error + 'a list" where
  "collect [] = Inr []"
| "collect (r # rs) =
     (case r of
        Inl e \<Rightarrow> Inl e
      | Inr v \<Rightarrow> (case collect rs of Inl e \<Rightarrow> Inl e | Inr vs \<Rightarrow> Inr (v # vs)))"

definition np_clip :: "real \<Rightarrow> real \<Rightarrow> real \<Rightarrow> real" where
  "np_clip a a_min a_max = min a_max (max a a_min)"

text \<open>\<open>PTDF[i, :] @ p_ni[t, 1:]\<close>: the base-case flow on branch \<open>i\<close> in period \<open>t\<close>.\<close>

definition branch_flow :: "matrix \<Rightarrow> matrix \<Rightarrow> nat \<Rightarrow> nat \<Rightarrow> real" where
  "branch_flow PTDF p_ni t i = dot (row PTDF i) (tl (p_ni ! t))"

definition delta_base :: "Network \<Rightarrow> matrix \<Rightarrow> matrix list \<Rightarrow> nat \<Rightarrow> real list" where
  "delta_base net PTDF p_ni_star i =
     concat (map (\<lambda>p_ni.
        map (\<lambda>t. max (\<bar>branch_flow PTDF p_ni t i\<bar> - capacity_mw (branches net ! i)) 0)
            [0..<length p_ni]) p_ni_star)"

definition delta_cont :: "Network \<Rightarrow> matrix \<Rightarrow> matrix \<Rightarrow> matrix list \<Rightarrow> real \<Rightarrow> nat \<Rightarrow> real list" where
  "delta_cont net PTDF LODF p_ni_star eta_c i =
     concat (map (\<lambda>p_ni.
        concat (map (\<lambda>t.
           map (\<lambda>j. max (\<bar>branch_flow PTDF p_ni t i + LODF ! i ! j * branch_flow PTDF p_ni t j\<bar>
                           - eta_c * capacity_mw (branches net ! i)) 0 / eta_c)
               (filter (\<lambda>j. i \<noteq> j \<and> j \<in> set (identify_non_islanding_branches net))
                       [0..<net_b net]))
           [0..<length p_ni])) p_ni_star)"

text \<open>
  One pass of the loop over branches. \<open>r_i_int = int(np.ceil(r_i))\<close> is used directly
  as a zero-based index into the violations sorted in decreasing order.
\<close>

definition rtep_branch ::
  "Network \<Rightarrow> matrix list \<Rightarrow> real \<Rightarrow> vec \<Rightarrow> real \<Rightarrow> matrix \<Rightarrow> matrix \<Rightarrow> nat \<Rightarrow> error + real" where
  "rtep_branch net p_ni_star eta_c c_br c_vio PTDF LODF i =
     (let db = delta_base net PTDF p_ni_star i;
          dc = delta_cont net PTDF LODF p_ni_star eta_c i;
          x_br_lb_i = (if db \<noteq> [] then Max (set db) else 0);
          r_i = c_br ! i / (eta_c * c_vio);
          x_br_max_i = capacity_mw (branches net ! i) * 2
      in case (if dc \<noteq> []
               then (let delta_cont_sorted = rev (sort dc);
                         r_i_int = \<lceil>r_i\<rceil>
                     in if r_i_int < int (length delta_cont_sorted)
                        then py_index delta_cont_sorted r_i_int
                        else Inr 0)
               else Inr 0) of
           Inl e \<Rightarrow> Inl e
         | Inr x_opt_i \<Rightarrow> Inr (np_clip (max x_br_lb_i x_opt_i) 0 x_br_max_i))"

text \<open>
  \<open>transmission_correction_rtep\<close>. The argument \<open>x_non_br\<close> is never read and is left
  out. Inputs on which the double arithmetic divides by zero (\<open>\<eta>\<^sub>c c\<^sub>v\<^sub>i\<^sub>o = 0\<close>), a cost
  vector shorter than \<open>b\<close>, and injection rows that do not have \<open>n\<close> entries are answered
  with an error before the loop.
\<close>

definition transmission_correction_rtep ::
  "Network \<Rightarrow> matrix list \<Rightarrow> vec \<Rightarrow> real \<Rightarrow> vec option \<Rightarrow> real \<Rightarrow> error + vec" where
  "transmission_correction_rtep net p_ni_star x_br_hat eta_c c_br_opt c_vio =
     (let b = net_b net;
          c_br = (case c_br_opt of None \<Rightarrow> replicate b (10 ^ 6) | Some c \<Rightarrow> c)
      in case compute_power_transfer_matrices net x_br_hat of
           Inl e \<Rightarrow> Inl e
         | Inr (PTDF, LODF) \<Rightarrow>
             if 0 < b \<and> eta_c * c_vio = 0 then Inl ArithmeticError
             else if length c_br < b then Inl IndexError
             else if 0 < b \<and> \<not> list_all (list_all (\<lambda>r. length r = net_n net)) p_ni_star
               then Inl ValueError
             else collect (map (rtep_branch net p_ni_star eta_c c_br c_vio PTDF LODF) [0..<b]))"






section \<open>The solver interface (solvers/gurobi\_interface.py)\<close>

text \<open>
  The status codes of the external LP library, as its documentation numbers them.
\<close>

definition GRB_OPTIMAL :: int where "GRB_OPTIMAL = 2"
definition GRB_INFEASIBLE :: int where "GRB_INFEASIBLE = 3"
definition GRB_INF_OR_UNBD :: int where "GRB_INF_OR_UNBD = 4"
definition GRB_UNBOUNDED :: int where "GRB_UNBOUNDED = 5"
definition GRB_ITERATION_LIMIT :: int where "GRB_ITERATION_LIMIT = 7"
definition GRB_TIME_LIMIT :: int where "GRB_TIME_LIMIT = 9"

text \<open>
  What \<open>GurobiSolver.solve\<close> reads from the library's model object once
  \<open>optimize()\<close> has returned: the status code, the objective value, the values of the
  registered variable arrays (by name), and the run statistics.
\<close>

type_synonym solution = "(string \<times> matrix) list"

record grb_model =
  m_status :: int
  ObjVal :: real
  m_X :: solution
  Runtime :: real
  IterCount :: real
  IsMIP :: bool
  MIPGap :: real

record SolverResult =
  status :: string
  objective_value :: "real option"
  solution :: "solution option"
  solve_time :: real
  iterations :: "real option"
  gap :: "real option"

text \<open>\<open>status_map.get(self.model.status, "unknown")\<close>: the dictionary, in its order.\<close>

definition status_map :: "(int \<times> string) list" where
  "status_map =
     [(GRB_OPTIMAL, ''optimal''),
      (GRB_INFEASIBLE, ''infeasible''),
      (GRB_UNBOUNDED, ''unbounded''),
      (GRB_INF_OR_UNBD, ''inf_or_unbd''),
      (GRB_TIME_LIMIT, ''time_limit''),
      (GRB_ITERATION_LIMIT, ''iteration_limit'')]"

definition status_of :: "int \<Rightarrow> string" where
  "status_of code = (case map_of status_map code of Some s \<Rightarrow> s | None \<Rightarrow> ''unknown'')"

definition GurobiSolver_solve :: "grb_model \<Rightarrow> SolverResult" where
  "GurobiSolver_solve m =
     (let st = status_of (m_status m) in
      if st = ''optimal''
      then \<lparr> status = st, objective_value = Some (ObjVal m), solution = Some (m_X m),
             solve_time = Runtime m, iterations = Some (IterCount m),
             gap = Some (if IsMIP m then MIPGap m else 0) \<rparr>
      else \<lparr> status = st, objective_value = None, solution = None,
             solve_time = Runtime m, iterations = Some (IterCount m), gap = None \<rparr>)"

section \<open>Capacity decisions (models/capacity\_decision.py)\<close>

record CapacityDecision =
  x_g :: vec
  x_es_p :: vec
  x_es_e :: vec
  x_br :: vec
  x_em :: vec

definition CapacityDecision_zeros :: "nat \<Rightarrow> nat \<Rightarrow> nat \<Rightarrow> nat \<Rightarrow> CapacityDecision" where
  "CapacityDecision_zeros n_generators n_storage n_branches n_scenarios =
     \<lparr> x_g = zeros n_generators, x_es_p = zeros n_storage, x_es_e = zeros n_storage,
       x_br = zeros n_branches, x_em = zeros n_scenarios \<rparr>"

record InvestmentCosts =
  ic_g :: vec
  ic_es_p :: vec
  ic_es_e :: vec
  ic_br :: vec
  ic_em :: vec


section \<open>The operational subproblem (algorithms/operational\_subproblem.py)\<close>

record ScenarioData =
  c_g :: matrix
  a_g :: matrix
  p_d :: matrix
  c_sh :: real
  c_vio :: real

record OperationalParameters =
  w_g :: vec
  w_es_p :: vec
  w_es_e :: vec
  w_br :: vec
  R_ramp :: vec
  e_emis :: vec
  A_g :: matrix
  A_es :: matrix
  A_d :: matrix
  eta :: real
  gamma_es :: real
  gamma_d :: real
  eta_c :: real

text \<open>
  The linear program that \<open>solve\<close> hands to the LP library, kept row by row: the
  variables with their lower bounds (\<open>None\<close> for a free variable; no variable has an upper
  bound), the objective, and the named constraints in the order the source adds them.
\<close>

datatype var =
    P_g nat nat | R_g nat nat
  | P_es nat nat | P_chg nat nat | P_dis nat nat | R_dis nat nat | Q_soc nat nat
  | P_br nat nat | P_dc nat nat
  | P_sh nat nat
  | S_c nat nat nat

type_synonym linexpr = "(real \<times> var) list \<times> real"

datatype sense = LE | GE | EQ

datatype cname =
    Gen_cap nat nat | Ramp_down nat nat | Ramp_up nat nat | Emissions
  | Storage_net nat nat | Storage_power nat nat | Storage_energy_max nat nat
  | Storage_energy_min nat nat | Storage_dynamics nat nat | Storage_continuity nat
  | Reserve nat
  | Branch_cap_pos nat nat | Branch_cap_neg nat nat
  | Cont_neg nat nat nat | Cont_pos nat nat nat

record constr =
  c_name :: cname
  c_lhs :: linexpr
  c_sense :: sense
  c_rhs :: linexpr

record lp =
  lp_vars :: "(var \<times> real option) list"
  lp_objective :: linexpr
  lp_constrs :: "constr list"

definition eval_expr :: "(var \<Rightarrow> real) \<Rightarrow> linexpr \<Rightarrow> real" where
  "eval_expr y ex = (\<Sum>(a, v) \<leftarrow> fst ex. a * y v) + snd ex"

definition holds :: "(var \<Rightarrow> real) \<Rightarrow> constr \<Rightarrow> bool" where
  "holds y c =
     (case c_sense c of
        LE \<Rightarrow> eval_expr y (c_lhs c) \<le> eval_expr y (c_rhs c)
      | GE \<Rightarrow> eval_expr y (c_lhs c) \<ge> eval_expr y (c_rhs c)
      | EQ \<Rightarrow> eval_expr y (c_lhs c) = eval_expr y (c_rhs c))"

definition bound_ok :: "(var \<Rightarrow> real) \<Rightarrow> var \<times> real option \<Rightarrow> bool" where
  "bound_ok y vb = (case snd vb of None \<Rightarrow> True | Some l \<Rightarrow> l \<le> y (fst vb))"

definition lp_feasible :: "lp \<Rightarrow> (var \<Rightarrow> real) \<Rightarrow> bool" where
  "lp_feasible P y \<longleftrightarrow> list_all (bound_ok y) (lp_vars P) \<and> list_all (holds y) (lp_constrs P)"

text \<open>
  What the status "optimal" of the LP library means for the point it returns.
\<close>

definition lp_optimal :: "lp \<Rightarrow> (var \<Rightarrow> real) \<Rightarrow> bool" where
  "lp_optimal P y \<longleftrightarrow>
     lp_feasible P y
     \<and> (\<forall>y'. lp_feasible P y' \<longrightarrow> eval_expr y (lp_objective P) \<le> eval_expr y' (lp_objective P))"

record OperationalSubproblem =
  sp_network :: Network
  sp_params :: OperationalParameters
  sp_scenario :: ScenarioData
  sp_x_br_hat :: vec
  sp_contingencies :: "(nat \<times> nat \<times> nat) list"
  sp_T :: nat
  sp_G :: nat
  sp_S :: nat
  sp_D :: nat
  sp_n :: nat
  sp_b :: nat
  sp_PTDF :: matrix
  sp_LODF :: matrix

definition shape1 :: "matrix \<Rightarrow> nat" where
  "shape1 M = (case M of [] \<Rightarrow> 0 | r # _ \<Rightarrow> length r)"

text \<open>
  \<open>OperationalSubproblem.__init__\<close>. The contingency set (a Python set of triples) is a
  list without repetitions; \<open>None\<close> and the empty set both give the empty list. The PTDF
  and LODF matrices are computed here, from \<open>x_br_hat\<close>, and stored.
\<close>

definition OperationalSubproblem_init ::
  "Network \<Rightarrow> OperationalParameters \<Rightarrow> ScenarioData \<Rightarrow> vec \<Rightarrow> (nat \<times> nat \<times> nat) list option
     \<Rightarrow> error + OperationalSubproblem" where
  "OperationalSubproblem_init network params scenario x_br_hat contingencies =
     (case op_compute_power_transfer_matrices network x_br_hat of
        Inl e \<Rightarrow> Inl e
      | Inr (PTDF, LODF) \<Rightarrow>
          Inr \<lparr> sp_network = network, sp_params = params, sp_scenario = scenario,
                sp_x_br_hat = x_br_hat,
                sp_contingencies = (case contingencies of None \<Rightarrow> [] | Some J \<Rightarrow> J),
                sp_T = length (c_g scenario), sp_G = shape1 (c_g scenario),
                sp_S = length (w_es_p params), sp_D = shape1 (p_d scenario),
                sp_n = net_n network, sp_b = net_b network,
                sp_PTDF = PTDF, sp_LODF = LODF \<rparr>)"

definition grid :: "nat \<Rightarrow> nat \<Rightarrow> (nat \<Rightarrow> nat \<Rightarrow> 'a) \<Rightarrow> 'a list" where
  "grid T N f = concat (map (\<lambda>t. map (\<lambda>g. f t g) [0..<N]) [0..<T])"

definition solve_vars :: "OperationalSubproblem \<Rightarrow> (var \<times> real option) list" where
  "solve_vars sp =
     grid (sp_T sp) (sp_G sp) (\<lambda>t g. (P_g t g, Some 0))
     @ grid (sp_T sp) (sp_G sp) (\<lambda>t g. (R_g t g, Some 0))
     @ grid (sp_T sp) (sp_S sp) (\<lambda>t s. (P_es t s, None))
     @ grid (sp_T sp) (sp_S sp) (\<lambda>t s. (P_chg t s, Some 0))
     @ grid (sp_T sp) (sp_S sp) (\<lambda>t s. (P_dis t s, Some 0))
     @ grid (sp_T sp) (sp_S sp) (\<lambda>t s. (R_dis t s, Some 0))
     @ grid (sp_T sp) (sp_S sp) (\<lambda>t s. (Q_soc t s, Some 0))
     @ grid (sp_T sp) (sp_b sp) (\<lambda>t j. (P_br t j, None))
     @ grid (sp_T sp) (net_beta (sp_network sp)) (\<lambda>t l. (P_dc t l, None))
     @ grid (sp_T sp) (sp_D sp) (\<lambda>t d. (P_sh t d, Some 0))
     @ map (\<lambda>(t, i, j). (S_c t i j, Some 0)) (sp_contingencies sp)"

definition solve_objective :: "OperationalSubproblem \<Rightarrow> linexpr" where
  "solve_objective sp =
     (grid (sp_T sp) (sp_G sp) (\<lambda>t g. (c_g (sp_scenario sp) ! t ! g, P_g t g))
      @ grid (sp_T sp) (sp_D sp) (\<lambda>t d. (c_sh (sp_scenario sp), P_sh t d))
      @ map (\<lambda>(t, i, j). (c_vio (sp_scenario sp), S_c t i j)) (sp_contingencies sp),
      0)"

definition generation_constraints :: "OperationalSubproblem \<Rightarrow> CapacityDecision \<Rightarrow> constr list" where
  "generation_constraints sp x =
     (let total_capacity = (\<lambda>g. w_g (sp_params sp) ! g + x_g x ! g) in
      concat (map (\<lambda>t.
        map (\<lambda>g. \<lparr> c_name = Gen_cap t g, c_lhs = ([(1, P_g t g), (1, R_g t g)], 0), c_sense = LE,
                    c_rhs = ([], a_g (sp_scenario sp) ! t ! g * total_capacity g) \<rparr>) [0..<sp_G sp]
        @ (if 0 < t
           then concat (map (\<lambda>g.
                  [\<lparr> c_name = Ramp_down t g, c_lhs = ([(1, P_g t g), (- 1, P_g (t - 1) g)], 0),
                     c_sense = GE, c_rhs = ([], - R_ramp (sp_params sp) ! g * total_capacity g) \<rparr>,
                   \<lparr> c_name = Ramp_up t g, c_lhs = ([(1, P_g t g), (- 1, P_g (t - 1) g)], 0),
                     c_sense = LE, c_rhs = ([], R_ramp (sp_params sp) ! g * total_capacity g) \<rparr>])
                  [0..<sp_G sp])
           else [])) [0..<sp_T sp]))"

definition emissions_constraint :: "OperationalSubproblem \<Rightarrow> real \<Rightarrow> constr" where
  "emissions_constraint sp x_em_omega =
     \<lparr> c_name = Emissions,
       c_lhs = (grid (sp_T sp) (sp_G sp) (\<lambda>t g. (e_emis (sp_params sp) ! g, P_g t g)), 0),
       c_sense = LE, c_rhs = ([], x_em_omega) \<rparr>"

definition storage_constraints :: "OperationalSubproblem \<Rightarrow> CapacityDecision \<Rightarrow> constr list" where
  "storage_constraints sp x =
     (let storage_power_cap = (\<lambda>s. w_es_p (sp_params sp) ! s + x_es_p x ! s);
          storage_energy_cap = (\<lambda>s. w_es_e (sp_params sp) ! s + x_es_e x ! s);
          et = eta (sp_params sp)
      in concat (grid (sp_T sp) (sp_S sp) (\<lambda>t s.
           [\<lparr> c_name = Storage_net t s, c_lhs = ([(1, P_es t s)], 0), c_sense = EQ,
              c_rhs = ([(1, P_dis t s), (- 1, P_chg t s)], 0) \<rparr>,
            \<lparr> c_name = Storage_power t s,
              c_lhs = ([(1, P_chg t s), (1, P_dis t s), (1, R_dis t s)], 0), c_sense = LE,
              c_rhs = ([], storage_power_cap s) \<rparr>,
            \<lparr> c_name = Storage_energy_max t s, c_lhs = ([(1, Q_soc t s)], 0), c_sense = LE,
              c_rhs = ([], storage_energy_cap s) \<rparr>,
            \<lparr> c_name = Storage_energy_min t s, c_lhs = ([(1, Q_soc t s)], 0), c_sense = GE,
              c_rhs = ([(1, R_dis t s)], 0) \<rparr>,
            \<lparr> c_name = Storage_dynamics t s, c_lhs = ([(1, Q_soc t s)], 0), c_sense = EQ,
              c_rhs = (if t = 0
                       then ([(et, P_chg t s), (- (1 / et), P_dis t s)],
                             gamma_es (sp_params sp) * storage_energy_cap s)
                       else ([(1, Q_soc (t - 1) s), (et, P_chg t s), (- (1 / et), P_dis t s)], 0)) \<rparr>]))
         @ map (\<lambda>s. \<lparr> c_name = Storage_continuity s, c_lhs = ([(1, Q_soc (sp_T sp - 1) s)], 0),
                       c_sense = EQ,
                       c_rhs = ([], gamma_es (sp_params sp) * storage_energy_cap s) \<rparr>)
               [0..<sp_S sp])"

definition reserve_constraints :: "OperationalSubproblem \<Rightarrow> constr list" where
  "reserve_constraints sp =
     map (\<lambda>t. \<lparr> c_name = Reserve t,
                 c_lhs = (map (\<lambda>g. (1, R_g t g)) [0..<sp_G sp]
                          @ map (\<lambda>s. (1, R_dis t s)) [0..<sp_S sp], 0),
                 c_sense = GE,
                 c_rhs = ([], gamma_d (sp_params sp)
                               * (\<Sum>d \<leftarrow> [0..<sp_D sp]. p_d (sp_scenario sp) ! t ! d)) \<rparr>)
         [0..<sp_T sp]"

text \<open>
  \<open>_add_power_flow_constraints\<close>: the two capacity rows of every branch and period, and
  nothing else. The arguments \<open>p_g\<close>, \<open>p_es\<close>, \<open>p_dc\<close> and \<open>p_sh\<close> are not read.
\<close>

definition add_power_flow_constraints :: "OperationalSubproblem \<Rightarrow> CapacityDecision \<Rightarrow> constr list" where
  "add_power_flow_constraints sp x =
     (let branch_capacity = (\<lambda>j. w_br (sp_params sp) ! j + x_br x ! j) in
      concat (grid (sp_T sp) (sp_b sp) (\<lambda>t j.
        [\<lparr> c_name = Branch_cap_pos t j, c_lhs = ([(1, P_br t j)], 0), c_sense = LE,
           c_rhs = ([], branch_capacity j) \<rparr>,
         \<lparr> c_name = Branch_cap_neg t j, c_lhs = ([(1, P_br t j)], 0), c_sense = GE,
           c_rhs = ([], - branch_capacity j) \<rparr>])))"

text \<open>
  \<open>_add_contingency_constraints\<close>: two rows per triple of the contingency set, with
  the stored LODF entry as coefficient.
\<close>

definition contingency_rows ::
  "OperationalSubproblem \<Rightarrow> CapacityDecision \<Rightarrow> nat \<times> nat \<times> nat \<Rightarrow> constr list" where
  "contingency_rows sp x tij =
     (case tij of (t, i, j) \<Rightarrow>
        let branch_capacity = (\<lambda>k. w_br (sp_params sp) ! k + x_br x ! k);
            p_brc = ([(1, P_br t i), (sp_LODF sp ! i ! j, P_br t j)], 0)
        in [\<lparr> c_name = Cont_neg t i j, c_lhs = p_brc, c_sense = GE,
              c_rhs = ([(- 1, S_c t i j)], - eta_c (sp_params sp) * branch_capacity i) \<rparr>,
            \<lparr> c_name = Cont_pos t i j, c_lhs = p_brc, c_sense = LE,
              c_rhs = ([(1, S_c t i j)], eta_c (sp_params sp) * branch_capacity i) \<rparr>])"

definition add_contingency_constraints :: "OperationalSubproblem \<Rightarrow> CapacityDecision \<Rightarrow> constr list" where
  "add_contingency_constraints sp x = concat (map (contingency_rows sp x) (sp_contingencies sp))"


text \<open>
  The arrays are read by index. Shapes other than the documented ones (vectors of
  length \<open>G\<close>, \<open>S\<close> and \<open>b\<close>, matrices with \<open>T\<close> rows), a contingency triple outside the
  index ranges, and the read of \<open>q[T-1, s]\<close> when there is no period are answered with an
  error, as the array library does for an index out of range or mismatched operands.
\<close>

definition shapes_ok :: "OperationalSubproblem \<Rightarrow> CapacityDecision \<Rightarrow> bool" where
  "shapes_ok sp x \<longleftrightarrow>
     length (w_g (sp_params sp)) = sp_G sp \<and> length (x_g x) = sp_G sp
     \<and> length (R_ramp (sp_params sp)) = sp_G sp \<and> length (e_emis (sp_params sp)) = sp_G sp
     \<and> length (a_g (sp_scenario sp)) = sp_T sp
     \<and> list_all (\<lambda>r. length r = sp_G sp) (c_g (sp_scenario sp))
     \<and> list_all (\<lambda>r. length r = sp_G sp) (a_g (sp_scenario sp))
     \<and> length (p_d (sp_scenario sp)) = sp_T sp
     \<and> list_all (\<lambda>r. length r = sp_D sp) (p_d (sp_scenario sp))
     \<and> length (w_es_e (sp_params sp)) = sp_S sp
     \<and> length (x_es_p x) = sp_S sp \<and> length (x_es_e x) = sp_S sp
     \<and> length (w_br (sp_params sp)) = sp_b sp \<and> length (x_br x) = sp_b sp"

definition build_lp :: "OperationalSubproblem \<Rightarrow> CapacityDecision \<Rightarrow> real \<Rightarrow> error + lp" where
  "build_lp sp x x_em_omega =
     (if \<not> shapes_ok sp x then Inl ValueError
      else if sp_T sp = 0 \<and> 0 < sp_S sp then Inl IndexError
      else if \<not> list_all (\<lambda>(t, i, j). t < sp_T sp \<and> i < sp_b sp \<and> j < sp_b sp)
                  (sp_contingencies sp) then Inl IndexError
      else Inr \<lparr> lp_vars = solve_vars sp,
                 lp_objective = solve_objective sp,
                 lp_constrs =
                   generation_constraints sp x
                   @ [emissions_constraint sp x_em_omega]
                   @ storage_constraints sp x
                   @ reserve_constraints sp
                   @ add_power_flow_constraints sp x
                   @ (if sp_contingencies sp \<noteq> [] then add_contingency_constraints sp x else []) \<rparr>)"



text \<open>
  The nodal balance of period \<open>t\<close> at bus \<open>k\<close>, as the difference of its two sides:
  \<open>A\<^sub>g p\<^sub>g + A\<^sub>e\<^sub>s p\<^sub>e\<^sub>s + A\<^sub>d (p\<^sub>s\<^sub>h - p\<^sub>d) - A p\<^sub>b\<^sub>r - A\<^sub>d\<^sub>c p\<^sub>d\<^sub>c\<close>.
\<close>

definition nodal_residual :: "OperationalSubproblem \<Rightarrow> (var \<Rightarrow> real) \<Rightarrow> nat \<Rightarrow> nat \<Rightarrow> real" where
  "nodal_residual sp y t k =
     (\<Sum>g \<leftarrow> [0..<sp_G sp]. A_g (sp_params sp) ! k ! g * y (P_g t g))
     + (\<Sum>s \<leftarrow> [0..<sp_S sp]. A_es (sp_params sp) ! k ! s * y (P_es t s))
     + (\<Sum>d \<leftarrow> [0..<sp_D sp]. A_d (sp_params sp) ! k ! d
                                  * (y (P_sh t d) - p_d (sp_scenario sp) ! t ! d))
     - (\<Sum>j \<leftarrow> [0..<sp_b sp]. A_br (sp_network sp) ! k ! j * y (P_br t j))
     - (\<Sum>l \<leftarrow> [0..<net_beta (sp_network sp)]. A_dc (sp_network sp) ! k ! l * y (P_dc t l))"

section \<open>The bundle method (algorithms/bundle\_method.py)\<close>

text \<open>The upper bound starts at \<open>np.inf\<close>.\<close>

datatype xreal = Finite real | PInf

record BundleIteration =
  it_k :: nat
  it_x_k :: CapacityDecision
  it_f_k :: real
  it_L_k :: real
  it_gap :: real
  it_theta_lev_k :: real

text \<open>
  The fields of \<open>BundleMethod\<close> that the algorithm reads or writes. Cutting planes and
  contingency sets are kept per scenario, in a list indexed by the scenario number.
\<close>

record BundleMethod =
  bm_network :: Network
  bm_costs :: InvestmentCosts
  bm_scenarios :: "ScenarioData list"
  bm_op_params :: OperationalParameters
  bm_alpha :: real
  bm_epsilon :: real
  bm_max_iterations :: nat
  cutting_planes :: "(real \<times> vec) list list"
  contingencies :: "(nat \<times> nat \<times> nat) list list"
  iterations :: "BundleIteration list"












definition xmin :: "xreal \<Rightarrow> real \<Rightarrow> real" where
  "xmin U f = (case U of PInf \<Rightarrow> f | Finite u \<Rightarrow> min u f)"




text \<open>The running upper bounds \<open>U\<^sub>1, U\<^sub>2, \<dots>\<close> of a sequence of values \<open>f\<^sub>1, f\<^sub>2, \<dots>\<close>.\<close>

fun running_U :: "xreal \<Rightarrow> real list \<Rightarrow> real list" where
  "running_U U [] = []"
| "running_U U (f # fs) = xmin U f # running_U (Finite (xmin U f)) fs"

section \<open>The cycle basis (algorithms/cycle\_basis.py)\<close>

text \<open>
  \<^verbatim>\<open>np.where(column == value)[0][0]\<close>: the first index holding the value; indexing the
  empty result raises \<^verbatim>\<open>IndexError\<close>.
\<close>

definition first_where :: "vec \<Rightarrow> real \<Rightarrow> error + nat" where
  "first_where xs v =
     (case filter (\<lambda>i. xs ! i = v) [0..<length xs] of
        [] \<Rightarrow> Inl IndexError
      | i # _ \<Rightarrow> Inr i)"

definition edge_ends :: "matrix \<Rightarrow> nat \<Rightarrow> error + (nat \<times> nat)" where
  "edge_ends incidence_matrix j =
     (case first_where (col incidence_matrix j) (- 1) of
        Inl e \<Rightarrow> Inl e
      | Inr from_n \<Rightarrow>
          (case first_where (col incidence_matrix j) 1 of
             Inl e \<Rightarrow> Inl e
           | Inr to_n \<Rightarrow> Inr (from_n, to_n)))"

text \<open>
  The spanning tree search of \<^verbatim>\<open>compute_fundamental_cycle_basis\<close>. One pass of the
  \<^verbatim>\<open>while\<close> loop scans the edges in order and takes the first one that is not a tree
  edge and leads from the node on top of the stack to an unvisited node; if there is none,
  the stack is popped.
\<close>

definition dfs_pick ::
  "(nat \<times> nat \<times> nat) list \<Rightarrow> nat list \<Rightarrow> nat list \<Rightarrow> nat \<Rightarrow> (nat \<times> nat) option" where
  "dfs_pick edges tree_edges visited node =
     (case filter (\<lambda>(from_n, to_n, edge_idx).
                     edge_idx \<notin> set tree_edges
                     \<and> (from_n = node \<and> to_n \<notin> set visited
                        \<or> to_n = node \<and> from_n \<notin> set visited)) edges of
        [] \<Rightarrow> None
      | (from_n, to_n, edge_idx) # _ \<Rightarrow>
          Some (if from_n = node \<and> to_n \<notin> set visited then to_n else from_n,
                edge_idx))"

function dfs ::
  "(nat \<times> nat \<times> nat) list \<Rightarrow> nat \<Rightarrow> nat list \<Rightarrow> nat list \<Rightarrow> nat list \<Rightarrow> nat list" where
  "dfs edges n stack visited tree_edges =
     (if stack \<noteq> [] \<and> int (length tree_edges) < int n - 1
      then (case dfs_pick edges tree_edges visited (last stack) of
              Some (v, edge_idx) \<Rightarrow>
                dfs edges n (stack @ [v]) (visited @ [v]) (tree_edges @ [edge_idx])
            | None \<Rightarrow> dfs edges n (butlast stack) visited tree_edges)
      else tree_edges)"
  by pat_completeness auto
termination
  by (relation "measure (\<lambda>(edges, n, stack, visited, tree_edges).
                   2 * (n - 1 - length tree_edges) + length stack)") auto

declare dfs.simps [simp del]

text \<open>
  Each non-tree edge gets a row in which only that edge is marked; the tree path that
  closes the cycle is not added. \<^verbatim>\<open>np.zeros((n_c, b))\<close> raises \<^verbatim>\<open>ValueError\<close> for a negative
  \<^verbatim>\<open>n_c\<close>, and writing a row beyond \<^verbatim>\<open>n_c\<close> raises \<^verbatim>\<open>IndexError\<close>.
\<close>

definition unit_row :: "nat \<Rightarrow> nat \<Rightarrow> vec" where
  "unit_row b e = map (\<lambda>j. if j = e then 1 else 0) [0..<b]"

definition compute_fundamental_cycle_basis :: "matrix \<Rightarrow> error + matrix" where
  "compute_fundamental_cycle_basis incidence_matrix =
     (let n = length incidence_matrix; b = shape1 incidence_matrix in
      case collect (map (\<lambda>j. case edge_ends incidence_matrix j of
                                 Inl e \<Rightarrow> Inl e
                               | Inr (from_n, to_n) \<Rightarrow> Inr (from_n, to_n, j))
                        [0..<b]) of
        Inl e \<Rightarrow> Inl e
      | Inr edges \<Rightarrow>
          let tree_edges = dfs edges n [0] [0] [];
              non_tree_edges = filter (\<lambda>j. j \<notin> set tree_edges) [0..<b]
          in if int b - int n + 1 < 0 then Inl ValueError
             else if int b - int n + 1 < int (length non_tree_edges) then Inl IndexError
             else Inr (map (unit_row b) non_tree_edges
                       @ replicate (nat (int b - int n + 1) - length non_tree_edges) (zeros b)))"

text \<open>
  The integer program (26) of \<^verbatim>\<open>solve_shortest_cycle_ip\<close> is solved by the external
  solver, which is a parameter \<open>ip\<close> of the model (\<open>None\<close> when the solver fails or is not
  optimal). \<open>ip_feasible\<close> states the constraints the program posts on \<open>v\<close>.
\<close>

definition ip_feasible :: "matrix \<Rightarrow> nat \<Rightarrow> vec \<Rightarrow> bool" where
  "ip_feasible C kappa_hat v \<longleftrightarrow>
     length v = shape1 C
     \<and> (\<exists>w u. length w = length C \<and> (\<forall>kappa < length C. w ! kappa = 0 \<or> w ! kappa = 1)
           \<and> w ! kappa_hat = 1
           \<and> (\<forall>j < shape1 C. (v ! j = 0 \<or> v ! j = 1)
                 \<and> (\<Sum>kappa \<leftarrow> [0..<length C]. C ! kappa ! j * w ! kappa)
                     = 2 * real_of_int (u j) + v ! j))"

fun improve_cycles :: "(matrix \<Rightarrow> nat \<Rightarrow> vec option) \<Rightarrow> nat list \<Rightarrow> matrix \<Rightarrow> matrix" where
  "improve_cycles ip [] C_undirected = C_undirected"
| "improve_cycles ip (kappa # rest) C_undirected =
     improve_cycles ip rest
       (case ip C_undirected kappa of
          Some v_star \<Rightarrow>
            if sum_list v_star < sum_list (C_undirected ! kappa)
            then C_undirected [kappa := v_star] else C_undirected
        | None \<Rightarrow> C_undirected)"

text \<open>
  \<^verbatim>\<open>assign_cycle_orientations\<close>: the first edge of a cycle is oriented forward, then the
  remaining edges are walked from the current node. When no remaining edge touches the
  current node the \<^verbatim>\<open>while remaining\<close> loop never ends; \<open>traverse\<close> returns \<open>None\<close> then.
\<close>

fun find_next :: "matrix \<Rightarrow> nat \<Rightarrow> nat list \<Rightarrow> (error + (nat \<times> real \<times> nat)) option" where
  "find_next incidence_matrix current_node [] = None"
| "find_next incidence_matrix current_node (edge_idx # rest) =
     (case edge_ends incidence_matrix edge_idx of
        Inl e \<Rightarrow> Some (Inl e)
      | Inr (edge_from, edge_to) \<Rightarrow>
          if edge_from = current_node then Some (Inr (edge_idx, 1, edge_to))
          else if edge_to = current_node then Some (Inr (edge_idx, - 1, edge_from))
          else find_next incidence_matrix current_node rest)"

lemma find_next_mem:
  "find_next A cur es = Some (Inr (e, sg, nx)) \<Longrightarrow> e \<in> set es"
  by (induction es) (auto split: sum.splits if_splits)

function traverse :: "matrix \<Rightarrow> nat \<Rightarrow> nat list \<Rightarrow> vec \<Rightarrow> (error + vec) option" where
  "traverse incidence_matrix current_node remaining D_row =
     (if remaining = [] then Some (Inr D_row)
      else (case find_next incidence_matrix current_node remaining of
              None \<Rightarrow> None
            | Some (Inl e) \<Rightarrow> Some (Inl e)
            | Some (Inr (edge_idx, sg, next_node)) \<Rightarrow>
                traverse incidence_matrix next_node (removeAll edge_idx remaining)
                  (D_row [edge_idx := sg])))"
  by pat_completeness auto
termination
proof (relation "measure (\<lambda>(A, cur, remaining, D_row). length remaining)")
  show "wf (measure (\<lambda>(A, cur, remaining, D_row). length remaining))" by simp
next
  fix A :: matrix and cur :: nat and remaining :: "nat list" and D_row :: vec
    and x2 :: "error + nat \<times> real \<times> nat" and b :: "nat \<times> real \<times> nat"
    and e :: nat and y :: "real \<times> nat" and sg :: real and nx :: nat
  assume "remaining \<noteq> []" "find_next A cur remaining = Some x2" "x2 = Inr b"
    "(e, y) = b" "(sg, nx) = y"
  then have "e \<in> set remaining" using find_next_mem [of A cur remaining e sg nx] by auto
  then have "length (removeAll e remaining) < length remaining"
    by (simp add: length_removeAll_less)
  then show "((A, nx, removeAll e remaining, D_row[e := sg]), A, cur, remaining, D_row)
       \<in> measure (\<lambda>(A, cur, remaining, D_row). length remaining)" by simp
qed

declare traverse.simps [simp del]

definition orient_cycle :: "matrix \<Rightarrow> vec \<Rightarrow> (error + vec) option" where
  "orient_cycle incidence_matrix C_row =
     (let b = length C_row;
          cycle_edges = filter (\<lambda>j. C_row ! j > 0) [0..<b]
      in case cycle_edges of
           [] \<Rightarrow> Some (Inr (zeros b))
         | first_edge # rest \<Rightarrow>
             (case edge_ends incidence_matrix first_edge of
                Inl e \<Rightarrow> Some (Inl e)
              | Inr (from_n, to_n) \<Rightarrow>
                  traverse incidence_matrix to_n rest ((zeros b) [first_edge := 1])))"

fun assign_rows :: "matrix \<Rightarrow> matrix \<Rightarrow> (error + matrix) option" where
  "assign_rows incidence_matrix [] = Some (Inr [])"
| "assign_rows incidence_matrix (C_row # rest) =
     (case orient_cycle incidence_matrix C_row of
        None \<Rightarrow> None
      | Some (Inl e) \<Rightarrow> Some (Inl e)
      | Some (Inr D_row) \<Rightarrow>
          (case assign_rows incidence_matrix rest of
             None \<Rightarrow> None
           | Some (Inl e) \<Rightarrow> Some (Inl e)
           | Some (Inr D_rest) \<Rightarrow> Some (Inr (D_row # D_rest))))"

definition assign_cycle_orientations :: "matrix \<Rightarrow> matrix \<Rightarrow> (error + matrix) option" where
  "assign_cycle_orientations C_undirected incidence_matrix = assign_rows incidence_matrix C_undirected"

text \<open>
  \<^verbatim>\<open>compute_minimal_cycle_basis\<close>: initial basis, shape assertion, one improvement step
  per cycle, orientation.
\<close>

definition compute_minimal_cycle_basis ::
  "(matrix \<Rightarrow> nat \<Rightarrow> vec option) \<Rightarrow> matrix \<Rightarrow> matrix option \<Rightarrow> (error + matrix) option" where
  "compute_minimal_cycle_basis ip incidence_matrix initial_basis =
     (let n = length incidence_matrix; b = shape1 incidence_matrix; n_c = int b - int n + 1 in
      case (case initial_basis of
              None \<Rightarrow> compute_fundamental_cycle_basis incidence_matrix
            | Some C0 \<Rightarrow> Inr C0) of
        Inl e \<Rightarrow> Some (Inl e)
      | Inr C \<Rightarrow>
          if \<not> (int (length C) = n_c \<and> list_all (\<lambda>r. length r = b) C)
          then Some (Inl AssertionError)
          else assign_cycle_orientations
                 (improve_cycles ip [0..<nat n_c] (map (map abs) C)) incidence_matrix)"


section \<open>Test networks\<close>

text \<open>Two buses joined by one branch; the slack bus is bus 0.\<close>

definition two_bus :: Network where
  "two_bus = \<lparr> net_n = 2,
       branches = [\<lparr> from_node = 0, to_node = 1, capacity_mw = 10, impedance = 1 / 10 \<rparr>],
       hvdc_lines = [] \<rparr>"

text \<open>Three buses in a line, 0 - 1 - 2; both branches are bridges.\<close>

definition three_bus_path :: Network where
  "three_bus_path = \<lparr> net_n = 3,
       branches = [\<lparr> from_node = 0, to_node = 1, capacity_mw = 10, impedance = 1 / 10 \<rparr>,
                   \<lparr> from_node = 1, to_node = 2, capacity_mw = 10, impedance = 1 / 5 \<rparr>],
       hvdc_lines = [] \<rparr>"


text \<open>
  Data for the three-bus line: one generator at bus 0, one load of 60 MW at bus 2, no
  storage, one period.
\<close>

definition line_params :: OperationalParameters where
  "line_params = \<lparr> w_g = [100], w_es_p = [], w_es_e = [], w_br = [10, 10],
       R_ramp = [1], e_emis = [0],
       A_g = [[1], [0], [0]], A_es = [[], [], []], A_d = [[0], [0], [1]],
       eta = 9 / 10, gamma_es = 1 / 2, gamma_d = 15 / 100, eta_c = 1 \<rparr>"

definition line_scenario :: ScenarioData where
  "line_scenario = \<lparr> c_g = [[10]], a_g = [[1]], p_d = [[60]], c_sh = 10000, c_vio = 2000 \<rparr>"











text \<open>Three buses on a ring: branches 0-1, 1-2 and 0-2.\<close>

definition triangle :: Network where
  "triangle = \<lparr> net_n = 3,
       branches = [\<lparr> from_node = 0, to_node = 1, capacity_mw = 50, impedance = 1 / 10 \<rparr>,
                   \<lparr> from_node = 1, to_node = 2, capacity_mw = 50, impedance = 1 / 10 \<rparr>,
                   \<lparr> from_node = 0, to_node = 2, capacity_mw = 50, impedance = 1 / 10 \<rparr>],
       hvdc_lines = [] \<rparr>"


section \<open>Properties of the solver interface\<close>

lemma status_of_cases:
  "status_of code =
     (if code = 2 then ''optimal'' else if code = 3 then ''infeasible''
      else if code = 5 then ''unbounded'' else if code = 4 then ''inf_or_unbd''
      else if code = 9 then ''time_limit'' else if code = 7 then ''iteration_limit''
      else ''unknown'')"
  by (simp add: status_of_def status_map_def GRB_OPTIMAL_def GRB_INFEASIBLE_def
      GRB_UNBOUNDED_def GRB_INF_OR_UNBD_def GRB_TIME_LIMIT_def GRB_ITERATION_LIMIT_def)


text \<open>
  Claim C10. \<open>GurobiSolver.solve\<close> has no failing branch of its own: for every model
  state it returns a \<open>SolverResult\<close>. The fields \<open>objective_value\<close> and
  \<open>solution\<close> are \<open>None\<close> exactly when the status string is not "optimal"; the six
  known status codes map to optimal, infeasible, unbounded, inf\_or\_unbd, time\_limit and
  iteration\_limit, and every other code maps to "unknown".
\<close>

theorem solve_result_shape:
  "(objective_value (GurobiSolver_solve m) = None
      \<longleftrightarrow> status (GurobiSolver_solve m) \<noteq> ''optimal'')
   \<and> (solution (GurobiSolver_solve m) = None
      \<longleftrightarrow> status (GurobiSolver_solve m) \<noteq> ''optimal'')
   \<and> (m_status m = GRB_OPTIMAL \<longrightarrow> status (GurobiSolver_solve m) = ''optimal'')
   \<and> (m_status m = GRB_INFEASIBLE \<longrightarrow> status (GurobiSolver_solve m) = ''infeasible'')
   \<and> (m_status m = GRB_UNBOUNDED \<longrightarrow> status (GurobiSolver_solve m) = ''unbounded'')
   \<and> (m_status m = GRB_INF_OR_UNBD \<longrightarrow> status (GurobiSolver_solve m) = ''inf_or_unbd'')
   \<and> (m_status m = GRB_TIME_LIMIT \<longrightarrow> status (GurobiSolver_solve m) = ''time_limit'')
   \<and> (m_status m = GRB_ITERATION_LIMIT
        \<longrightarrow> status (GurobiSolver_solve m) = ''iteration_limit'')
   \<and> (m_status m \<notin> {GRB_OPTIMAL, GRB_INFEASIBLE, GRB_UNBOUNDED, GRB_INF_OR_UNBD,
                     GRB_TIME_LIMIT, GRB_ITERATION_LIMIT}
        \<longrightarrow> status (GurobiSolver_solve m) = ''unknown'')"
proof -
  have st: "status (GurobiSolver_solve m) = status_of (m_status m)"
    by (simp add: GurobiSolver_solve_def Let_def)
  have obj: "objective_value (GurobiSolver_solve m) = None
               \<longleftrightarrow> status_of (m_status m) \<noteq> ''optimal''"
    by (simp add: GurobiSolver_solve_def Let_def)
  have sol: "solution (GurobiSolver_solve m) = None
               \<longleftrightarrow> status_of (m_status m) \<noteq> ''optimal''"
    by (simp add: GurobiSolver_solve_def Let_def)
  show ?thesis
    unfolding st obj sol
    by (simp add: status_of_cases GRB_OPTIMAL_def GRB_INFEASIBLE_def GRB_UNBOUNDED_def
        GRB_INF_OR_UNBD_def GRB_TIME_LIMIT_def GRB_ITERATION_LIMIT_def)
qed

theorem solve_result_shape_witness:
  "status (GurobiSolver_solve \<lparr> m_status = 3, ObjVal = 0, m_X = [], Runtime = 1,
       IterCount = 0, IsMIP = False, MIPGap = 0 \<rparr>) = ''infeasible''
   \<and> objective_value (GurobiSolver_solve \<lparr> m_status = 3, ObjVal = 0, m_X = [], Runtime = 1,
       IterCount = 0, IsMIP = False, MIPGap = 0 \<rparr>) = None
   \<and> status (GurobiSolver_solve \<lparr> m_status = 11, ObjVal = 0, m_X = [], Runtime = 1,
       IterCount = 0, IsMIP = False, MIPGap = 0 \<rparr>) = ''unknown''
   \<and> objective_value (GurobiSolver_solve \<lparr> m_status = 2, ObjVal = 600, m_X = [],
       Runtime = 1, IterCount = 0, IsMIP = False, MIPGap = 0 \<rparr>) = Some 600"
  using solve_result_shape [of "\<lparr> m_status = 3, ObjVal = 0, m_X = [], Runtime = 1,
       IterCount = 0, IsMIP = False, MIPGap = 0 \<rparr>"]
    solve_result_shape [of "\<lparr> m_status = 11, ObjVal = 0, m_X = [], Runtime = 1,
       IterCount = 0, IsMIP = False, MIPGap = 0 \<rparr>"]
  by (simp add: GurobiSolver_solve_def status_of_cases GRB_OPTIMAL_def GRB_INFEASIBLE_def
      GRB_UNBOUNDED_def GRB_INF_OR_UNBD_def GRB_TIME_LIMIT_def GRB_ITERATION_LIMIT_def)

section \<open>Properties of the transmission corrector\<close>

lemma upt_1: "[0..<1] = [0]" by simp
lemma upt_3: "[0..<3] = [0, 1, 2]" by (simp add: upt_conv_Cons)









section \<open>Properties of the RTEP step\<close>

lemma three_bus_path_kernel:
  "compute_power_transfer_matrices three_bus_path [0, 0] = Inr ([[1, 0], [1, 1]], [[0, - 1], [0, 0]])"
proof -
  have b: "net_b three_bus_path = Suc (Suc 0)" by (simp add: net_b_def three_bus_path_def)
  have A: "tl (A_br three_bus_path) = [[1, - 1], [0, 1]]"
    by (simp add: A_br_def three_bus_path_def upt_3)
  have S: "get_susceptances three_bus_path (Some [0, 0]) = Inr [10, 5]"
    by (simp add: get_susceptances_def broadcast_def net_b_def three_bus_path_def)
  have u: "[0..<Suc (Suc 0)] = [0, Suc 0]" by (simp add: upt_conv_Cons)
  have D: "diag_mat [10, 5] = [[10, 0], [0, 5]]"
    by (simp add: diag_mat_def u)
  have M: "mat_mul (Suc (Suc 0)) (mat_mul (Suc (Suc 0)) (mat_T (Suc (Suc 0)) [[1, - 1], [0, 1]])
             [[10, 0], [0, 5]]) [[1, - 1], [0, 1]] = [[10, - 10], [- 10, 15]]"
    by (simp add: mat_mul_def mat_T_def col_def dot_def u)
  have I: "linalg_inv [[10, - 10], [- 10, 15]] = Some [[3 / 10, 1 / 5], [1 / 5, 1 / 5]]"
    by (simp add: linalg_inv_def minor_def del_nth_def u)
  have P: "mat_mul (Suc (Suc 0)) (mat_mul (Suc (Suc 0)) [[10, 0], [0, 5]] [[1, - 1], [0, 1]])
             [[3 / 10, 1 / 5], [1 / 5, 1 / 5]] = [[1, 0], [1, 1]]"
    by (simp add: mat_mul_def col_def dot_def u)
  have L: "lodf_loops (Suc (Suc 0)) [[1, 0], [1, 1]] [[1, - 1], [0, 1]] = [[0, - 1], [0, 0]]"
    by (simp add: lodf_loops_def lodf_entry_def lodf_numerator_def lodf_denominator_def
        row_def col_def dot_def u)
  show ?thesis
    by (simp add: compute_power_transfer_matrices_def S Let_def A b D M I P L)
qed

lemma path_flows:
  "branch_flow [[1, 0], [1, 1]] [[0, 0, 30], [0, 0, 15]] 0 0 = 0"
  "branch_flow [[1, 0], [1, 1]] [[0, 0, 30], [0, 0, 15]] (Suc 0) 0 = 0"
  "branch_flow [[1, 0], [1, 1]] [[0, 0, 30], [0, 0, 15]] 0 (Suc 0) = 30"
  "branch_flow [[1, 0], [1, 1]] [[0, 0, 30], [0, 0, 15]] (Suc 0) (Suc 0) = 15"
  by (simp_all add: branch_flow_def row_def dot_def)

lemma path_delta_cont_0:
  "delta_cont three_bus_path [[1, 0], [1, 1]] [[0, - 1], [0, 0]] [[[0, 0, 30], [0, 0, 15]]] 1 0 = [20, 5]"
proof -
  have b: "net_b three_bus_path = Suc (Suc 0)" by (simp add: net_b_def three_bus_path_def)
  have u: "[0..<Suc (Suc 0)] = [0, Suc 0]" by (simp add: upt_conv_Cons)
  show ?thesis
    unfolding delta_cont_def identify_non_islanding_branches_def b u
    by (simp add: path_flows three_bus_path_def)
qed

lemma path_delta_cont_1:
  "delta_cont three_bus_path [[1, 0], [1, 1]] [[0, - 1], [0, 0]] [[[0, 0, 30], [0, 0, 15]]] 1 (Suc 0) = [20, 5]"
proof -
  have b: "net_b three_bus_path = Suc (Suc 0)" by (simp add: net_b_def three_bus_path_def)
  have u: "[0..<Suc (Suc 0)] = [0, Suc 0]" by (simp add: upt_conv_Cons)
  show ?thesis
    unfolding delta_cont_def identify_non_islanding_branches_def b u
    by (simp add: path_flows three_bus_path_def)
qed

lemma path_delta_base:
  "delta_base three_bus_path [[1, 0], [1, 1]] [[[0, 0, 30], [0, 0, 15]]] 0 = [0, 0]"
  "delta_base three_bus_path [[1, 0], [1, 1]] [[[0, 0, 30], [0, 0, 15]]] (Suc 0) = [20, 5]"
proof -
  have u: "[0..<Suc (Suc 0)] = [0, Suc 0]" by (simp add: upt_conv_Cons)
  show "delta_base three_bus_path [[1, 0], [1, 1]] [[[0, 0, 30], [0, 0, 15]]] 0 = [0, 0]"
    unfolding delta_base_def by (simp add: u path_flows three_bus_path_def)
  show "delta_base three_bus_path [[1, 0], [1, 1]] [[[0, 0, 30], [0, 0, 15]]] (Suc 0) = [20, 5]"
    unfolding delta_base_def by (simp add: u path_flows three_bus_path_def)
qed

lemma path_branch_0:
  "rtep_branch three_bus_path [[[0, 0, 30], [0, 0, 15]]] 1 [2000, 2000] 2000
     [[1, 0], [1, 1]] [[0, - 1], [0, 0]] 0 = Inr 5"
  unfolding rtep_branch_def path_delta_cont_0 path_delta_base
  by (simp add: py_index_def np_clip_def three_bus_path_def)

lemma path_branch_1:
  "rtep_branch three_bus_path [[[0, 0, 30], [0, 0, 15]]] 1 [2000, 2000] 2000
     [[1, 0], [1, 1]] [[0, - 1], [0, 0]] (Suc 0) = Inr 20"
  unfolding rtep_branch_def path_delta_cont_1 path_delta_base
  by (simp add: py_index_def np_clip_def three_bus_path_def)

text \<open>
  Claim C5. The claim asks, for each branch, for the \<open>\<lceil>c\<^sub>b\<^sub>r / (\<eta>\<^sub>c c\<^sub>v\<^sub>i\<^sub>o)\<rceil>\<close>-th largest
  contingency violation, projected into \<open>[x\<^sub>l\<^sub>b, x\<^sub>m\<^sub>a\<^sub>x]\<close>. The source uses the rounded ratio
  as a zero-based index into the violations sorted in decreasing order, which selects the
  next smaller one. On the three-bus line with injections 30 and 15 at bus 2, the ratio is
  1, the sorted violations of branch 0 are 20 and 5, the lower bound is 0 and the upper
  bound 20: the first largest violation is 20, and the source returns 5 for branch 0.
\<close>

theorem rtep_takes_zero_based_index:
  "transmission_correction_rtep three_bus_path [[[0, 0, 30], [0, 0, 15]]] [0, 0] 1
      (Some [2000, 2000]) 2000 = Inr [5, 20]
   \<and> rev (sort (delta_cont three_bus_path [[1, 0], [1, 1]] [[0, - 1], [0, 0]]
                   [[[0, 0, 30], [0, 0, 15]]] 1 0)) = [20, 5]
   \<and> \<lceil>(2000 :: real) / (1 * 2000)\<rceil> = 1
   \<and> Max (set (delta_base three_bus_path [[1, 0], [1, 1]] [[[0, 0, 30], [0, 0, 15]]] 0)) = 0
   \<and> capacity_mw (branches three_bus_path ! 0) * 2 = 20"
proof -
  have b: "net_b three_bus_path = Suc (Suc 0)" by (simp add: net_b_def three_bus_path_def)
  have u: "[0..<Suc (Suc 0)] = [0, Suc 0]" by (simp add: upt_conv_Cons)
  have n: "net_n three_bus_path = 3" by (simp add: three_bus_path_def)
  have "transmission_correction_rtep three_bus_path [[[0, 0, 30], [0, 0, 15]]] [0, 0] 1
      (Some [2000, 2000]) 2000 = Inr [5, 20]"
    by (simp add: transmission_correction_rtep_def three_bus_path_kernel Let_def b u n
        path_branch_0 path_branch_1)
  moreover have "capacity_mw (branches three_bus_path ! 0) * 2 = 20"
    by (simp add: three_bus_path_def)
  ultimately show ?thesis
    by (simp add: path_delta_cont_0 path_delta_base)
qed

section \<open>Properties of the network model\<close>

lemma two_bus_connected: "graph_connected 2 (branches two_bus)"
proof -
  have e: "edge_rel (branches two_bus) = {(0, 1), (1, 0)}"
    by (auto simp: edge_rel_def two_bus_def)
  have "(u, v) \<in> (edge_rel (branches two_bus))\<^sup>*" if "u < 2" "v < 2" for u v :: nat
  proof -
    from that have "u = 0 \<or> u = 1" "v = 0 \<or> v = 1" by auto
    then show ?thesis unfolding e by auto
  qed
  then show ?thesis by (simp add: graph_connected_def)
qed

text \<open>
  Claim C3. The claim asks for exactly the non-bridge branches. The source returns every
  branch index: on two buses joined by one branch, branch 0 is returned although removing
  it disconnects the graph.
\<close>

theorem bridge_listed_as_non_islanding:
  "identify_non_islanding_branches two_bus = [0] \<and> removal_disconnects two_bus 0"
proof -
  have "\<not> graph_connected 2 (del_nth 0 (branches two_bus))"
  proof
    assume "graph_connected 2 (del_nth 0 (branches two_bus))"
    then have "(0 :: nat, 1 :: nat) \<in> (edge_rel (del_nth 0 (branches two_bus)))\<^sup>*"
      by (simp add: graph_connected_def)
    then show False by (simp add: edge_rel_def two_bus_def del_nth_def)
  qed
  moreover have "net_n two_bus = 2" by (simp add: two_bus_def)
  ultimately show ?thesis
    using two_bus_connected
    by (simp add: removal_disconnects_def identify_non_islanding_branches_def net_b_def two_bus_def)
qed

section \<open>Properties of the PTDF/LODF kernel\<close>

lemma dot_zeros: "dot (zeros n) ys = 0"
proof -
  have "(\<Sum>(x, y) \<leftarrow> zip (replicate n (0::real)) ys. x * y) = 0" for ys :: "real list"
  proof (induction n arbitrary: ys)
    case 0
    show ?case by simp
  next
    case (Suc n)
    show ?case by (cases ys) (simp_all add: Suc.IH)
  qed
  then show ?thesis by (simp add: dot_def zeros_def)
qed


lemma lodf_entry_zero_ptdf:
  "i < b \<Longrightarrow> lodf_entry (zeros2 b m) A i j = 0"
  by (simp add: lodf_entry_def lodf_numerator_def row_def zeros2_def dot_zeros)







section \<open>Properties of the operational subproblem\<close>









lemma init_fields:
  assumes "OperationalSubproblem_init net params scen x_hat Jo = Inr sp"
  shows "op_compute_power_transfer_matrices net x_hat = Inr (sp_PTDF sp, sp_LODF sp)"
    and "sp_contingencies sp = (case Jo of None \<Rightarrow> [] | Some J \<Rightarrow> J)"
    and "sp_params sp = params" and "sp_scenario sp = scen" and "sp_network sp = net"
    and "sp_T sp = length (c_g scen)" and "sp_b sp = net_b net" and "sp_x_br_hat sp = x_hat"
    and "sp_G sp = shape1 (c_g scen)" and "sp_S sp = length (w_es_p params)"
    and "sp_D sp = shape1 (p_d scen)"
  using assms
  by (auto simp: OperationalSubproblem_init_def split: sum.splits prod.splits)


lemma lodf_loops_zero: "lodf_loops b (zeros2 b m) A = zeros2 b b"
proof -
  have "map (\<lambda>i. map (\<lambda>j. lodf_entry (zeros2 b m) A i j) [0..<b]) [0..<b]
          = map (\<lambda>i. replicate b 0) [0..<b]"
    by (rule map_cong) (simp_all add: lodf_entry_zero_ptdf map_replicate_const)
  then show ?thesis by (simp add: lodf_loops_def zeros2_def zeros_def map_replicate_const)
qed

lemma kernels_agree:
  "op_compute_power_transfer_matrices net x = compute_power_transfer_matrices net x"
proof (cases "get_susceptances net (Some x)")
  case (Inl e)
  then show ?thesis
    by (simp add: op_compute_power_transfer_matrices_def compute_power_transfer_matrices_def)
next
  case (Inr sus)
  have len: "length (A_br net) = net_n net" by (simp add: A_br_def)
  show ?thesis
    by (auto simp: op_compute_power_transfer_matrices_def compute_power_transfer_matrices_def Inr
        Let_def len lodf_loops_zero split: option.splits)
qed


lemma line_subproblem:
  assumes sp: "OperationalSubproblem_init three_bus_path line_params line_scenario [0, 0] None = Inr sp"
    and P: "build_lp sp (CapacityDecision_zeros 1 0 2 1) 0 = Inr P"
  shows "lp_feasible P y \<longleftrightarrow>
           0 \<le> y (P_g 0 0) \<and> 0 \<le> y (R_g 0 0) \<and> 0 \<le> y (P_sh 0 0)
           \<and> y (P_g 0 0) + y (R_g 0 0) \<le> 100 \<and> 9 \<le> y (R_g 0 0)
           \<and> \<bar>y (P_br 0 0)\<bar> \<le> 10 \<and> \<bar>y (P_br 0 1)\<bar> \<le> 10"
    and "eval_expr y (lp_objective P) = 10 * y (P_g 0 0) + 10000 * y (P_sh 0 0)"
    and "nodal_residual sp y 0 2 = y (P_sh 0 0) - 60 - y (P_br 0 1)"
proof -
  note f = init_fields [OF sp]
  have dims: "sp_T sp = Suc 0" "sp_G sp = Suc 0" "sp_S sp = 0" "sp_D sp = Suc 0"
    "sp_b sp = Suc (Suc 0)" "net_beta (sp_network sp) = 0" "sp_contingencies sp = []"
    using f(2,5,6,7,9,10,11)
    by (simp_all add: line_scenario_def line_params_def shape1_def net_b_def net_beta_def
        three_bus_path_def)
  have u: "[0..<Suc (Suc 0)] = [0, Suc 0]" by (simp add: upt_conv_Cons)
  have Pe: "P = \<lparr> lp_vars = solve_vars sp, lp_objective = solve_objective sp,
              lp_constrs = generation_constraints sp (CapacityDecision_zeros 1 0 2 1)
                @ [emissions_constraint sp 0]
                @ storage_constraints sp (CapacityDecision_zeros 1 0 2 1)
                @ reserve_constraints sp
                @ add_power_flow_constraints sp (CapacityDecision_zeros 1 0 2 1) \<rparr>"
    using P dims(7) by (auto simp: build_lp_def split: if_splits)
  show "lp_feasible P y \<longleftrightarrow>
           0 \<le> y (P_g 0 0) \<and> 0 \<le> y (R_g 0 0) \<and> 0 \<le> y (P_sh 0 0)
           \<and> y (P_g 0 0) + y (R_g 0 0) \<le> 100 \<and> 9 \<le> y (R_g 0 0)
           \<and> \<bar>y (P_br 0 0)\<bar> \<le> 10 \<and> \<bar>y (P_br 0 1)\<bar> \<le> 10"
    unfolding Pe lp_feasible_def
    by (auto simp: solve_vars_def generation_constraints_def emissions_constraint_def
        storage_constraints_def reserve_constraints_def add_power_flow_constraints_def
        grid_def dims u f(3,4) bound_ok_def holds_def eval_expr_def Let_def
        line_params_def line_scenario_def CapacityDecision_zeros_def zeros_def)
  show "eval_expr y (lp_objective P) = 10 * y (P_g 0 0) + 10000 * y (P_sh 0 0)"
    unfolding Pe
    by (simp add: solve_objective_def grid_def dims f(4) eval_expr_def line_scenario_def)
  have nb: "net_beta three_bus_path = 0" by (simp add: net_beta_def three_bus_path_def)
  have Ab: "A_br three_bus_path = [[- 1, 0], [1, - 1], [0, 1]]"
    by (simp add: A_br_def three_bus_path_def upt_3)
  show "nodal_residual sp y 0 2 = y (P_sh 0 0) - 60 - y (P_br 0 1)"
    by (simp add: nodal_residual_def dims(1-5) u f(3,4,5) nb Ab line_params_def line_scenario_def)
qed

text \<open>
  Claim C1. The claim asks that every primal returned with status "optimal" meets the
  nodal balance within \<open>10\<^sup>-\<^sup>6\<close> MW and the base-case branch limits. The program the
  source builds has the branch limits and no nodal balance row. On the three-bus line with
  a load of 60 MW at bus 2, an optimal point exists (no generation, no shedding, 9 MW of
  reserve), every feasible point keeps both flows within the 10 MW limits, and every
  optimal point leaves the balance at bus 2 off by at least 50 MW.
\<close>

theorem optimal_dispatch_leaves_load_unbalanced:
  "\<exists>sp P. OperationalSubproblem_init three_bus_path line_params line_scenario [0, 0] None = Inr sp
     \<and> build_lp sp (CapacityDecision_zeros 1 0 2 1) 0 = Inr P
     \<and> lp_optimal P ((\<lambda>v. 0)(R_g 0 0 := 9))
     \<and> (\<forall>y. lp_optimal P y \<longrightarrow> 50 \<le> \<bar>nodal_residual sp y 0 2\<bar>)
     \<and> (\<forall>y. lp_feasible P y \<longrightarrow> \<bar>y (P_br 0 0)\<bar> \<le> 10 \<and> \<bar>y (P_br 0 1)\<bar> \<le> 10)"
proof -
  let ?x = "CapacityDecision_zeros 1 0 2 1"
  let ?y0 = "(\<lambda>v. 0 :: real)(R_g 0 0 := 9)"
  have k: "op_compute_power_transfer_matrices three_bus_path [0, 0]
             = Inr ([[1, 0], [1, 1]], [[0, - 1], [0, 0]])"
    by (simp add: kernels_agree three_bus_path_kernel)
  obtain sp where sp: "OperationalSubproblem_init three_bus_path line_params line_scenario [0, 0]
             None = Inr sp"
    by (simp add: OperationalSubproblem_init_def k)
  note f = init_fields [OF sp]
  have dims: "sp_T sp = 1" "sp_G sp = 1" "sp_S sp = 0" "sp_D sp = 1" "sp_b sp = 2"
    using f(6,7,9,10,11)
    by (simp_all add: line_scenario_def line_params_def shape1_def net_b_def three_bus_path_def)
  have ok: "shapes_ok sp ?x"
    by (simp add: shapes_ok_def dims f(3,4) line_scenario_def line_params_def
        CapacityDecision_zeros_def zeros_def)
  obtain P where P: "build_lp sp ?x 0 = Inr P"
    using ok dims f(2) by (simp add: build_lp_def)
  note l = line_subproblem [OF sp P]
  have feas0: "lp_feasible P ?y0" by (simp add: l(1))
  have obj0: "eval_expr ?y0 (lp_objective P) = 0" by (simp add: l(2))
  have lower: "0 \<le> eval_expr y (lp_objective P)" if "lp_feasible P y" for y
    using that by (simp add: l(1,2))
  have opt0: "lp_optimal P ?y0"
    using feas0 lower by (simp add: lp_optimal_def obj0)
  have res: "50 \<le> \<bar>nodal_residual sp y 0 2\<bar>" if "lp_optimal P y" for y
  proof -
    from that have fy: "lp_feasible P y" and "eval_expr y (lp_objective P) \<le> eval_expr ?y0 (lp_objective P)"
      using feas0 by (auto simp: lp_optimal_def)
    then have "10 * y (P_g 0 0) + 10000 * y (P_sh 0 0) \<le> 0"
      by (simp add: l(2))
    moreover from fy have "0 \<le> y (P_g 0 0)" "0 \<le> y (P_sh 0 0)" "\<bar>y (P_br 0 1)\<bar> \<le> 10"
      by (simp_all add: l(1))
    ultimately have "y (P_sh 0 0) = 0" "\<bar>y (P_br 0 1)\<bar> \<le> 10" by linarith+
    then show ?thesis by (auto simp: l(3))
  qed
  have lim: "\<bar>y (P_br 0 0)\<bar> \<le> 10 \<and> \<bar>y (P_br 0 1)\<bar> \<le> 10" if "lp_feasible P y" for y
    using that by (simp add: l(1))
  from sp P opt0 res lim show ?thesis by blast
qed

theorem optimal_dispatch_leaves_load_unbalanced_witness:
  "\<exists>sp P. OperationalSubproblem_init three_bus_path line_params line_scenario [0, 0] None = Inr sp
     \<and> build_lp sp (CapacityDecision_zeros 1 0 2 1) 0 = Inr P
     \<and> lp_optimal P ((\<lambda>v. 0)(R_g 0 0 := 9))
     \<and> 50 \<le> \<bar>nodal_residual sp ((\<lambda>v. 0)(R_g 0 0 := 9)) 0 2\<bar>"
  using optimal_dispatch_leaves_load_unbalanced by blast

section \<open>Properties of the bundle method\<close>






















lemma running_U_last_Cons:
  "fs \<noteq> [] \<Longrightarrow> last (running_U U (f # fs)) = last (running_U (Finite (xmin U f)) fs)"
  by (cases fs) simp_all










section \<open>Properties of the cycle basis\<close>

lemma triangle_connected: "graph_connected (net_n triangle) (branches triangle)"
proof -
  have e: "edge_rel (branches triangle) = {(0, 1), (1, 0), (1, 2), (2, 1), (0, 2), (2, 0)}"
    by (auto simp: edge_rel_def triangle_def)
  have "(u, v) \<in> (edge_rel (branches triangle))\<^sup>*" if "u < 3" "v < 3" for u v :: nat
  proof -
    from that have "u = v \<or> (u, v) \<in> edge_rel (branches triangle)"
      unfolding e by auto
    then show ?thesis by auto
  qed
  then show ?thesis by (simp add: graph_connected_def triangle_def)
qed

lemma triangle_incidence: "A_br triangle = [[- 1, 0, - 1], [1, - 1, 0], [0, 1, 1]]"
  by (simp add: A_br_def triangle_def upt_3)

lemma triangle_edge_ends:
  "edge_ends [[- 1, 0, - 1], [1, - 1, 0], [0, 1, 1]] 0 = Inr (0, Suc 0)"
  "edge_ends [[- 1, 0, - 1], [1, - 1, 0], [0, 1, 1]] (Suc 0) = Inr (Suc 0, 2)"
  "edge_ends [[- 1, 0, - 1], [1, - 1, 0], [0, 1, 1]] 2 = Inr (0, 2)"
  by (simp_all add: edge_ends_def first_where_def col_def upt_3)

lemma triangle_dfs: "dfs [(0, Suc 0, 0), (Suc 0, 2, Suc 0), (0, 2, 2)] 3 [0] [0] [] = [0, Suc 0]"
proof -
  let ?E = "[(0, Suc 0, 0), (Suc 0, 2, Suc 0), (0 :: nat, 2 :: nat, 2 :: nat)]"
  have 1: "dfs_pick ?E [] [0] 0 = Some (Suc 0, 0)"
    by (simp add: dfs_pick_def)
  have 2: "dfs_pick ?E [0] [0, Suc 0] (Suc 0) = Some (2, Suc 0)"
    by (simp add: dfs_pick_def)
  have a: "dfs ?E 3 [0] [0] [] = dfs ?E 3 [0, Suc 0] [0, Suc 0] [0]"
    using 1 by (subst dfs.simps) simp
  have b: "dfs ?E 3 [0, Suc 0] [0, Suc 0] [0] = dfs ?E 3 [0, Suc 0, 2] [0, Suc 0, 2] [0, Suc 0]"
    using 2 by (subst dfs.simps) simp
  have c: "dfs ?E 3 [0, Suc 0, 2] [0, Suc 0, 2] [0, Suc 0] = [0, Suc 0]"
    by (subst dfs.simps) simp
  show ?thesis by (simp only: a b c)
qed

lemma triangle_fundamental:
  "compute_fundamental_cycle_basis [[- 1, 0, - 1], [1, - 1, 0], [0, 1, 1]] = Inr [[0, 0, 1]]"
proof -
  have e: "collect (map (\<lambda>j. case edge_ends [[- 1, 0, - 1], [1, - 1, 0], [0, 1, 1]] j of
                                 Inl e \<Rightarrow> Inl e
                               | Inr (from_n, to_n) \<Rightarrow> Inr (from_n, to_n, j)) [0, Suc 0, 2])
             = Inr [(0, Suc 0, 0), (Suc 0, 2, Suc 0), (0, 2, 2)]"
    by (simp add: triangle_edge_ends)
  have u: "[0..<3] = [0, Suc 0, 2]" by (simp add: upt_3)
  have s: "shape1 [[- 1, 0, - 1], [1, - 1, 0], [0, 1, 1 :: real]] = 3" by (simp add: shape1_def)
  have l: "length [[- 1, 0, - 1], [1, - 1, 0], [0, 1, 1 :: real]] = 3" by simp
  show ?thesis
    unfolding compute_fundamental_cycle_basis_def s l Let_def u e
    by (simp add: triangle_dfs unit_row_def u)
qed

lemma feasible_has_closing_edge:
  assumes "ip_feasible [[0, 0, 1]] 0 v"
  shows "1 \<le> sum_list v"
proof -
  have s: "shape1 [[0, 0, 1 :: real]] = 3" by (simp add: shape1_def)
  from assms have len: "length v = 3" by (simp add: ip_feasible_def s)
  from assms obtain w :: vec and u :: "nat \<Rightarrow> int" where w: "w ! 0 = 1"
    and c: "\<forall>j<3. (v ! j = 0 \<or> v ! j = 1)
               \<and> (\<Sum>kappa \<leftarrow> [0..<length [[0, 0, 1 :: real]]]. [[0, 0, 1 :: real]] ! kappa ! j * w ! kappa)
                   = 2 * real_of_int (u j) + v ! j"
    unfolding ip_feasible_def s by blast
  from len obtain a b d where v: "v = [a, b, d]"
    by (metis (no_types, opaque_lifting) length_0_conv length_Suc_conv numeral_3_eq_3)
  have "(0 :: nat) < 3" "(1 :: nat) < 3" "(2 :: nat) < 3" by simp_all
  with c have "v ! 0 = 0 \<or> v ! 0 = 1" "v ! 1 = 0 \<or> v ! 1 = 1" "v ! 2 = 0 \<or> v ! 2 = 1"
    by blast+
  then have r: "0 \<le> a" "0 \<le> b" "d = 0 \<or> d = 1" unfolding v by auto
  have "(2 :: nat) < 3" by simp
  with c have "(\<Sum>kappa \<leftarrow> [0..<length [[0, 0, 1 :: real]]]. [[0, 0, 1 :: real]] ! kappa ! 2 * w ! kappa)
                   = 2 * real_of_int (u 2) + v ! 2" by blast
  then have e: "1 = 2 * real_of_int (u 2) + d" using w by (simp add: v)
  have "d \<noteq> 0"
  proof
    assume "d = 0"
    with e have "real_of_int (2 * u 2) = real_of_int 1" by simp
    then have "2 * u 2 = 1" by (simp only: of_int_eq_iff)
    then show False by presburger
  qed
  with r show ?thesis by (auto simp: v)
qed

lemma traverse_done: "traverse A cur [] D_row = Some (Inr D_row)"
  by (subst traverse.simps) simp

text \<open>
  Claim C2. For a valid connected topology the matrix \<open>D\<close> returned by
  \<^verbatim>\<open>compute_minimal_cycle_basis\<close> should have closed cycles as rows (\<open>D A\<^sup>T = 0\<close>). On the ring
  of three buses, which is connected and has one independent cycle, the code returns the
  single row \<open>[0, 0, 1]\<close> whenever the integer program returns nothing or a feasible point:
  the initial basis marks the non-tree edge only, no feasible point is shorter, and the
  orientation step has nothing left to walk. That row is not closed: \<open>D A\<^sup>T = [-1, 0, 1]\<close>.
\<close>

theorem stub_basis_is_not_closed:
  assumes "\<forall>v. ip [[0, 0, 1]] 0 = Some v \<longrightarrow> ip_feasible [[0, 0, 1]] 0 v"
  shows "graph_connected (net_n triangle) (branches triangle)
         \<and> compute_minimal_cycle_basis ip (A_br triangle) None = Some (Inr [[0, 0, 1]])
         \<and> mat_mul 3 [[0, 0, 1]] (mat_T 3 (A_br triangle)) = [[- 1, 0, 1]]"
proof -
  let ?A = "[[- 1, 0, - 1], [1, - 1, 0], [0, 1, 1 :: real]]"
  have s: "shape1 ?A = 3" by (simp add: shape1_def)
  have imp: "improve_cycles ip [0] [[0, 0, 1]] = [[0, 0, 1]]"
  proof (cases "ip [[0, 0, 1]] 0")
    case None
    then show ?thesis by simp
  next
    case (Some v)
    with assms have "ip_feasible [[0, 0, 1]] 0 v" by simp
    from feasible_has_closing_edge [OF this] Some show ?thesis by simp
  qed
  have z: "(zeros 3)[2 := 1] = [0, 0, 1]"
    by (simp add: zeros_def numeral_3_eq_3 numeral_2_eq_2)
  have ce: "filter (\<lambda>j. [0, 0, 1 :: real] ! j > 0) [0..<3] = [2]"
    by (simp add: upt_3)
  have l3: "length [0, 0, 1 :: real] = 3" by simp
  have oc: "orient_cycle ?A [0, 0, 1] = Some (Inr [0, 0, 1])"
    unfolding orient_cycle_def Let_def l3 ce
    by (simp add: triangle_edge_ends z traverse_done)
  have ori: "assign_cycle_orientations [[0, 0, 1]] ?A = Some (Inr [[0, 0, 1]])"
    by (simp add: assign_cycle_orientations_def oc)
  have n: "[0..<nat (int 3 - int (length ?A) + 1)] = [0]" by simp
  have a: "map (map abs) [[0, 0, 1 :: real]] = [[0, 0, 1]]" by simp
  have D: "compute_minimal_cycle_basis ip ?A None = Some (Inr [[0, 0, 1]])"
    unfolding compute_minimal_cycle_basis_def Let_def s n triangle_fundamental
      option.case sum.case a imp ori
    by simp
  have m: "mat_mul 3 [[0, 0, 1]] (mat_T 3 ?A) = [[- 1, 0, 1]]"
    by (simp add: mat_mul_def mat_T_def col_def dot_def upt_3)
  show ?thesis using D m triangle_connected by (simp add: triangle_incidence)
qed

theorem stub_basis_is_not_closed_witness:
  "graph_connected (net_n triangle) (branches triangle)
   \<and> compute_minimal_cycle_basis (\<lambda>C kappa. Some (C ! kappa)) (A_br triangle) None
     = Some (Inr [[0, 0, 1]])
   \<and> mat_mul 3 [[0, 0, 1]] (mat_T 3 (A_br triangle)) = [[- 1, 0, 1]]"
proof -
  have "ip_feasible [[0, 0, 1]] 0 [0, 0, 1]"
    unfolding ip_feasible_def
    apply (intro conjI)
     apply (simp add: shape1_def)
    apply (rule exI [of _ "[1]"])
    apply (rule exI [of _ "\<lambda>j. 0"])
    apply (auto simp: shape1_def less_Suc_eq numeral_3_eq_3)
    done
  then have "\<forall>v. (\<lambda>C kappa. Some (C ! kappa)) [[0, 0, 1 :: real]] (0 :: nat) = Some v
               \<longrightarrow> ip_feasible [[0, 0, 1]] 0 v" by simp
  from stub_basis_is_not_closed [of "\<lambda>C kappa. Some (C ! kappa)"] this show ?thesis by simp
qed

end
